theory Spec2Isabelle
  imports Main
begin

section \<open>The bridge simulator's event handlers (bridge\_sim.py)\<close>

text \<open>
  The module holds two globals, the static dictionary \<open>VEHICLES\<close> and the dictionary
  \<open>users\<close>, and two Socket.IO handlers, \<open>handle_join\<close> and \<open>handle_power\<close>.
  A Python dictionary is an association list in insertion order with at most one entry per
  key; a failing subscript raises \<open>KeyError\<close>. The fields of a \<open>join\<close> payload are
  strings; the payload of \<open>power_update\<close> is opaque to the server, so its type is a
  parameter.
\<close>

subsection \<open>Python dictionaries\<close>

type_synonym ('k, 'v) dict = "('k \<times> 'v) list"

datatype error = KeyError string

definition keys :: "('k, 'v) dict \<Rightarrow> 'k list" where
  "keys d = map fst d"

text \<open>\<^verbatim>\<open>d[k]\<close>: the value stored under \<open>k\<close>, or \<open>KeyError(k)\<close>.\<close>

fun getitem :: "(string, 'v) dict \<Rightarrow> string \<Rightarrow> error + 'v" where
  "getitem [] k = Inl (KeyError k)"
| "getitem ((k', v') # d) k = (if k' = k then Inr v' else getitem d k)"

text \<open>
  \<^verbatim>\<open>d[k] = v\<close>: an existing key keeps its position and gets the new value, a new key
  is appended.
\<close>

fun setitem :: "('k, 'v) dict \<Rightarrow> 'k \<Rightarrow> 'v \<Rightarrow> ('k, 'v) dict" where
  "setitem [] k v = [(k, v)]"
| "setitem ((k', v') # d) k v =
     (if k' = k then (k', v) # d else (k', v') # setitem d k v)"

subsection \<open>Module state\<close>

record vehicle =
  name :: string
  type :: string
  shields :: int
  weapons :: "string list"

type_synonym user_record = "(string, string) dict"

type_synonym registry = "(string, user_record) dict"

text \<open>The second argument of \<open>emit\<close>: the registry, or a \<open>power_update\<close> payload.\<close>

datatype 'p emit_args = UsersArg registry | DataArg 'p

text \<open>One call \<^verbatim>\<open>emit(event, args, broadcast=...)\<close>.\<close>

record 'p emission =
  event :: string
  args :: "'p emit_args"
  broadcast :: bool

text \<open>
  The two globals of the module, and the emissions handed to the transport so far
  (oldest first).
\<close>

record 'p server =
  VEHICLES :: "(string, vehicle) dict"
  users :: registry
  outbox :: "'p emission list"

definition VEHICLES_literal :: "(string, vehicle) dict" where
  "VEHICLES_literal =
     [(''millennium_falcon'',
       \<lparr>name = ''Millennium Falcon'', type = ''Freighter'', shields = 100,
        weapons = [''Quad Laser Cannons'', ''Concussion Missiles'']\<rparr>)]"

text \<open>The state after the module has been loaded: \<^verbatim>\<open>users = {}\<close>, nothing emitted.\<close>

definition module_init :: "'p server" where
  "module_init = \<lparr>VEHICLES = VEHICLES_literal, users = [], outbox = []\<rparr>"

subsection \<open>The transport\<close>

text \<open>
  \<open>emit\<close> of Flask-SocketIO, called inside a handler: the payload is serialised at the
  call, so the emission holds the value the argument has at that moment.
\<close>

definition emit :: "string \<Rightarrow> 'p emit_args \<Rightarrow> bool \<Rightarrow> 'p server \<Rightarrow> 'p server" where
  "emit ev a bc s = s\<lparr>outbox := outbox s @ [\<lparr>event = ev, args = a, broadcast = bc\<rparr>]\<rparr>"

text \<open>
  Who receives an emission made while handling an event of client \<open>sender\<close>, when
  \<open>connected\<close> are the clients connected: with \<^verbatim>\<open>broadcast=True\<close> every connected
  client (the sender is not skipped, \<open>include_self\<close> being left at its default), without
  it the sender alone.
\<close>

definition recipients :: "string list \<Rightarrow> string \<Rightarrow> 'p emission \<Rightarrow> string list" where
  "recipients connected sender e = (if broadcast e then connected else [sender])"

subsection \<open>The handlers\<close>

text \<open>
  \<^verbatim>\<open>
  def handle_join(data):
      users[data['session_id']] = {'station': data['station'], 'name': data['name']}
      emit('update_users', users, broadcast=True)
  \<close>
  Python evaluates the right-hand side of the assignment first (\<open>data['station']\<close>, then
  \<open>data['name']\<close>), then the subscript \<open>data['session_id']\<close> of the target, then
  stores. A handler returns the state it leaves behind together with its outcome, so a
  fault shows the state it was raised in.
\<close>

definition handle_join :: "(string, string) dict \<Rightarrow> 'p server \<Rightarrow> (error + unit) \<times> 'p server" where
  "handle_join data s =
     (case getitem data ''station'' of
        Inl e \<Rightarrow> (Inl e, s)
      | Inr station_value \<Rightarrow>
     (case getitem data ''name'' of
        Inl e \<Rightarrow> (Inl e, s)
      | Inr name_value \<Rightarrow>
     (case getitem data ''session_id'' of
        Inl e \<Rightarrow> (Inl e, s)
      | Inr session_id \<Rightarrow>
          (let s1 = s\<lparr>users := setitem (users s) session_id
                                  [(''station'', station_value), (''name'', name_value)]\<rparr>
           in (Inr (), emit ''update_users'' (UsersArg (users s1)) True s1)))))"

text \<open>
  \<^verbatim>\<open>
  def handle_power(data):
      emit('power_update', data, broadcast=True)
  \<close>
\<close>

definition handle_power :: "'p \<Rightarrow> 'p server \<Rightarrow> (error + unit) \<times> 'p server" where
  "handle_power data s = (Inr (), emit ''power_update'' (DataArg data) True s)"

subsection \<open>Event dispatch\<close>

datatype 'p inbound = Join "(string, string) dict" | PowerUpdate 'p

fun dispatch :: "'p inbound \<Rightarrow> 'p server \<Rightarrow> (error + unit) \<times> 'p server" where
  "dispatch (Join data) s = handle_join data s"
| "dispatch (PowerUpdate data) s = handle_power data s"

text \<open>
  Events are handled one at a time, each to completion. A fault ends the handler and the
  process goes on with the globals as the handler left them; a process that stops at a
  fault instead has handled a prefix of the events.
\<close>

fun run :: "'p server \<Rightarrow> 'p inbound list \<Rightarrow> 'p server" where
  "run s [] = s"
| "run s (e # es) = run (snd (dispatch e s)) es"

section \<open>Properties of the dictionary operations\<close>

text \<open>A subscript succeeds exactly on the keys of the dictionary.\<close>

lemma getitem_in_keys: "(\<exists>v. getitem d k = Inr v) \<longleftrightarrow> k \<in> set (keys d)"
  by (induction d) (auto simp: keys_def)

lemma getitem_missing: "k \<notin> set (keys d) \<Longrightarrow> getitem d k = Inl (KeyError k)"
  by (induction d) (auto simp: keys_def)

lemma getitem_fault: "getitem d k = Inl e \<Longrightarrow> e = KeyError k \<and> k \<notin> set (keys d)"
  by (induction d) (fastforce simp: keys_def split: if_splits)+

lemma keys_setitem:
  "keys (setitem d k v) = (if k \<in> set (keys d) then keys d else keys d @ [k])"
  by (induction d) (fastforce simp: keys_def)+

lemma length_setitem:
  "length (setitem d k v) = (if k \<in> set (keys d) then length d else Suc (length d))"
  by (induction d) (fastforce simp: keys_def)+

lemma distinct_keys_setitem: "distinct (keys d) \<Longrightarrow> distinct (keys (setitem d k v))"
  by (simp add: keys_setitem)

lemma getitem_setitem:
  "getitem (setitem d k v) k' = (if k' = k then Inr v else getitem d k')"
  by (induction d) auto

lemma setitem_twice: "setitem (setitem d k v) k w = setitem d k w"
  by (induction d) auto

lemma set_setitem: "set (setitem d k v) \<subseteq> insert (k, v) (set d)"
  by (induction d) (auto split: if_splits)

section \<open>Properties of the handlers\<close>

text \<open>
  The join handler has two outcomes: the \<open>KeyError\<close> of an absent key, raised in an
  unchanged state, or a store followed by one emission.
\<close>

lemma handle_join_ok:
  assumes "getitem data ''station'' = Inr st" "getitem data ''name'' = Inr nm"
      "getitem data ''session_id'' = Inr sid"
  shows "handle_join data s =
     (Inr (), s\<lparr>users := setitem (users s) sid [(''station'', st), (''name'', nm)],
                outbox := outbox s @ [\<lparr>event = ''update_users'',
                   args = UsersArg (setitem (users s) sid [(''station'', st), (''name'', nm)]),
                   broadcast = True\<rparr>]\<rparr>)"
  using assms by (simp add: handle_join_def emit_def Let_def)

lemma handle_join_fault:
  assumes "\<not> {''session_id'', ''station'', ''name''} \<subseteq> set (keys data)"
  shows "\<exists>k \<in> {''session_id'', ''station'', ''name''} - set (keys data).
           handle_join data s = (Inl (KeyError k), s)"
  using assms
  by (auto simp: handle_join_def getitem_missing split: sum.splits dest: getitem_fault)

lemma handle_join_cases:
  obtains (fault) k where "handle_join data s = (Inl (KeyError k), s)"
  | (ok) sid st nm where "getitem data ''station'' = Inr st" "getitem data ''name'' = Inr nm"
      "getitem data ''session_id'' = Inr sid"
      "handle_join data s =
        (Inr (), s\<lparr>users := setitem (users s) sid [(''station'', st), (''name'', nm)],
                outbox := outbox s @ [\<lparr>event = ''update_users'',
                   args = UsersArg (setitem (users s) sid [(''station'', st), (''name'', nm)]),
                   broadcast = True\<rparr>]\<rparr>)"
proof (cases "{''session_id'', ''station'', ''name''} \<subseteq> set (keys data)")
  case True
  then have "\<exists>v. getitem data ''session_id'' = Inr v" "\<exists>v. getitem data ''station'' = Inr v"
    "\<exists>v. getitem data ''name'' = Inr v"
    by (simp_all add: getitem_in_keys)
  then obtain sid st nm where g: "getitem data ''station'' = Inr st"
    "getitem data ''name'' = Inr nm" "getitem data ''session_id'' = Inr sid"
    by blast
  from g handle_join_ok [OF g, of s] show thesis by (rule ok)
next
  case False
  from handle_join_fault [OF False, of s] show thesis using fault by blast
qed

lemma handle_power_users: "users (snd (handle_power data s)) = users s"
  by (simp add: handle_power_def emit_def)

text \<open>One event leaves the registry alone or stores one two-field record in it.\<close>

lemma users_dispatch:
  "users (snd (dispatch e s)) = users s
   \<or> (\<exists>sid r. users (snd (dispatch e s)) = setitem (users s) sid r
        \<and> keys r = [''station'', ''name''])"
proof (cases e)
  case (Join data)
  show ?thesis
  proof (cases data s rule: handle_join_cases)
    case (fault k)
    then show ?thesis by (simp add: Join)
  next
    case (ok sid st nm)
    have "keys [(''station'', st), (''name'', nm)] = [''station'', ''name'']"
      by (simp add: keys_def)
    with ok(4) show ?thesis unfolding Join dispatch.simps by fastforce
  qed
next
  case (PowerUpdate data)
  then show ?thesis by (simp add: handle_power_users)
qed

lemma keys_dispatch: "set (keys (users s)) \<subseteq> set (keys (users (snd (dispatch e s))))"
  using users_dispatch [of e s] by (auto simp: keys_setitem)

lemma distinct_keys_dispatch:
  "distinct (keys (users s)) \<Longrightarrow> distinct (keys (users (snd (dispatch e s))))"
  using users_dispatch [of e s] by (auto simp: distinct_keys_setitem)

lemma length_users_dispatch: "length (users s) \<le> length (users (snd (dispatch e s)))"
  using users_dispatch [of e s] by (auto simp: length_setitem)

text \<open>Neither handler looks at \<open>VEHICLES\<close> or assigns it.\<close>

lemma VEHICLES_dispatch:
  "dispatch e (s\<lparr>VEHICLES := V\<rparr>) = (fst (dispatch e s), (snd (dispatch e s))\<lparr>VEHICLES := V\<rparr>)"
proof (cases e)
  case (Join data)
  show ?thesis unfolding Join dispatch.simps
    by (simp add: handle_join_def emit_def Let_def split: sum.splits)
next
  case (PowerUpdate data)
  then show ?thesis by (simp add: handle_power_def emit_def)
qed

lemma VEHICLES_dispatch_same: "VEHICLES (snd (dispatch e s)) = VEHICLES s"
proof (cases e)
  case (Join data)
  show ?thesis unfolding Join dispatch.simps
    by (simp add: handle_join_def emit_def Let_def split: sum.splits)
next
  case (PowerUpdate data)
  then show ?thesis by (simp add: handle_power_def emit_def)
qed

section \<open>Properties of event sequences\<close>

lemma run_append: "run s (xs @ ys) = run (run s xs) ys"
  by (induction xs arbitrary: s) auto

lemma keys_run: "k \<in> set (keys (users s)) \<Longrightarrow> k \<in> set (keys (users (run s evs)))"
proof (induction evs arbitrary: s)
  case Nil
  then show ?case by simp
next
  case (Cons e evs)
  from Cons.prems keys_dispatch [of s e]
  have "k \<in> set (keys (users (snd (dispatch e s))))" by blast
  then show ?case by (simp add: Cons.IH)
qed

lemma length_users_run: "length (users s) \<le> length (users (run s evs))"
proof (induction evs arbitrary: s)
  case Nil
  then show ?case by simp
next
  case (Cons e evs)
  from length_users_dispatch [of s e] Cons.IH [of "snd (dispatch e s)"]
  show ?case by simp
qed

lemma distinct_keys_run:
  "distinct (keys (users s)) \<Longrightarrow> distinct (keys (users (run s evs)))"
  by (induction evs arbitrary: s) (simp_all add: distinct_keys_dispatch)

lemma VEHICLES_run_same: "VEHICLES (run s evs) = VEHICLES s"
  by (induction evs arbitrary: s) (simp_all add: VEHICLES_dispatch_same)

lemma VEHICLES_run: "run (s\<lparr>VEHICLES := V\<rparr>) evs = (run s evs)\<lparr>VEHICLES := V\<rparr>"
  by (induction evs arbitrary: s) (simp_all add: VEHICLES_dispatch)

text \<open>
  Over a sequence of joins that all carry the three keys: the keys of the registry, the
  entry of a session id whose last join is known, and the emissions.
\<close>

lemma keys_run_joins:
  assumes "\<forall>d \<in> set ds. {''session_id'', ''station'', ''name''} \<subseteq> set (keys d)"
  shows "set (keys (users (run s (map Join ds))))
     = set (keys (users s)) \<union> {sid. \<exists>d \<in> set ds. getitem d ''session_id'' = Inr sid}"
  using assms
proof (induction ds arbitrary: s)
  case Nil
  then show ?case by simp
next
  case (Cons d ds)
  from Cons.prems have "{''session_id'', ''station'', ''name''} \<subseteq> set (keys d)" by simp
  then have "\<exists>v. getitem d ''session_id'' = Inr v" "\<exists>v. getitem d ''station'' = Inr v"
    "\<exists>v. getitem d ''name'' = Inr v"
    by (simp_all add: getitem_in_keys)
  then obtain sid st nm where g: "getitem d ''station'' = Inr st"
    "getitem d ''name'' = Inr nm" "getitem d ''session_id'' = Inr sid"
    by blast
  have step: "set (keys (users (snd (handle_join d s)))) = insert sid (set (keys (users s)))"
    by (auto simp: handle_join_ok [OF g] keys_setitem)
  from Cons.prems have rest: "\<forall>d \<in> set ds. {''session_id'', ''station'', ''name''} \<subseteq> set (keys d)"
    by simp
  show ?case
    using g(3) by (auto simp: Cons.IH [OF rest] step)
qed

lemma getitem_users_run_other:
  assumes "\<forall>d \<in> set ds. getitem d ''session_id'' \<noteq> Inr sid"
  shows "getitem (users (run s (map Join ds))) sid = getitem (users s) sid"
  using assms
proof (induction ds arbitrary: s)
  case Nil
  then show ?case by simp
next
  case (Cons d ds)
  have "getitem (users (snd (handle_join d s))) sid = getitem (users s) sid"
  proof (cases d s rule: handle_join_cases)
    case (fault k)
    then show ?thesis by simp
  next
    case (ok sid' st nm)
    with Cons.prems have "sid \<noteq> sid'" by auto
    with ok(4) show ?thesis by (simp add: getitem_setitem)
  qed
  with Cons show ?case by simp
qed

lemma getitem_users_run_recent:
  assumes "ds = before @ d # after"
    and "getitem d ''session_id'' = Inr sid"
    and "getitem d ''station'' = Inr st" and "getitem d ''name'' = Inr nm"
    and "\<forall>d' \<in> set after. getitem d' ''session_id'' \<noteq> Inr sid"
  shows "getitem (users (run s (map Join ds))) sid = Inr [(''station'', st), (''name'', nm)]"
proof -
  have "run s (map Join ds) = run (snd (handle_join d (run s (map Join before)))) (map Join after)"
    by (simp add: assms(1) run_append)
  then show ?thesis
    by (simp add: getitem_users_run_other [OF assms(5)]
        handle_join_ok [OF assms(3) assms(4) assms(2)] getitem_setitem)
qed

lemma outbox_run_joins:
  assumes "\<forall>d \<in> set ds. {''session_id'', ''station'', ''name''} \<subseteq> set (keys d)"
  shows "outbox (run s (map Join ds))
     = outbox s @ map (\<lambda>n. \<lparr>event = ''update_users'',
                           args = UsersArg (users (run s (map Join (take (Suc n) ds)))),
                           broadcast = True\<rparr>) [0..<length ds]"
  using assms
proof (induction ds rule: rev_induct)
  case Nil
  then show ?case by simp
next
  case (snoc d ds)
  from snoc.prems have "{''session_id'', ''station'', ''name''} \<subseteq> set (keys d)" by simp
  then have "\<exists>v. getitem d ''session_id'' = Inr v" "\<exists>v. getitem d ''station'' = Inr v"
    "\<exists>v. getitem d ''name'' = Inr v"
    by (simp_all add: getitem_in_keys)
  then obtain sid st nm where g: "getitem d ''station'' = Inr st"
    "getitem d ''name'' = Inr nm" "getitem d ''session_id'' = Inr sid"
    by blast
  from snoc.prems have rest: "\<forall>d \<in> set ds. {''session_id'', ''station'', ''name''} \<subseteq> set (keys d)"
    by simp
  have last_step: "run s (map Join (ds @ [d])) = snd (handle_join d (run s (map Join ds)))"
    by (simp add: run_append)
  have new: "outbox (run s (map Join (ds @ [d])))
      = outbox (run s (map Join ds))
        @ [\<lparr>event = ''update_users'', args = UsersArg (users (run s (map Join (ds @ [d])))),
            broadcast = True\<rparr>]"
    unfolding last_step by (simp add: handle_join_ok [OF g])
  define f where "f xs = (\<lambda>n. \<lparr>event = ''update_users'',
                  args = (UsersArg (users (run s (map Join (take (Suc n) xs)))) :: 'a emit_args),
                  broadcast = True\<rparr>)" for xs
  have old: "map (f (ds @ [d])) [0..<length ds] = map (f ds) [0..<length ds]"
    by (rule map_cong) (simp_all add: f_def)
  have "map (f (ds @ [d])) [0..<length (ds @ [d])]
      = map (f ds) [0..<length ds] @ [f (ds @ [d]) (length ds)]"
    by (simp add: old)
  moreover have "f (ds @ [d]) (length ds)
      = \<lparr>event = ''update_users'', args = UsersArg (users (run s (map Join (ds @ [d])))),
          broadcast = True\<rparr>"
    by (simp add: f_def)
  moreover have "outbox (run s (map Join ds)) = outbox s @ map (f ds) [0..<length ds]"
    using snoc.IH [OF rest] by (simp add: f_def)
  ultimately have "outbox (run s (map Join (ds @ [d])))
      = outbox s @ map (f (ds @ [d])) [0..<length (ds @ [d])]"
    using new by simp
  then show ?case by (simp add: f_def)
qed

section \<open>The claims\<close>

subsection \<open>The registry after a sequence of joins\<close>

text \<open>
  Claim C1. Let \<open>ds\<close> be the payloads of a sequence of joins, each with the three keys,
  handled from the freshly loaded module. After each of them (after the first \<open>n\<close>, for
  every \<open>n\<close>) the registry has no key twice, its keys are exactly the session ids seen
  so far, so it has as many entries as distinct session ids were seen, the entry of a
  session id is the record of station and name of the most recent join with that id, and
  the \<open>n\<close>-th \<open>update_users\<close> broadcast carries this registry. In particular two joins
  with different session ids and the same station and name leave two entries.
\<close>

theorem registry_after_joins:
  fixes ds :: "(string, string) dict list"
  assumes "\<forall>d \<in> set ds. {''session_id'', ''station'', ''name''} \<subseteq> set (keys d)"
  shows "\<forall>n \<le> length ds.
    (let seen = take n ds;
         registry = users (run (module_init :: 'p server) (map Join seen))
     in distinct (keys registry)
        \<and> set (keys registry) = {sid. \<exists>d \<in> set seen. getitem d ''session_id'' = Inr sid}
        \<and> length registry = card {sid. \<exists>d \<in> set seen. getitem d ''session_id'' = Inr sid}
        \<and> (\<forall>before d after sid st nm.
              seen = before @ d # after
              \<and> getitem d ''session_id'' = Inr sid
              \<and> getitem d ''station'' = Inr st \<and> getitem d ''name'' = Inr nm
              \<and> (\<forall>d' \<in> set after. getitem d' ''session_id'' \<noteq> Inr sid)
              \<longrightarrow> getitem registry sid = Inr [(''station'', st), (''name'', nm)])
        \<and> (0 < n \<longrightarrow> outbox (run (module_init :: 'p server) (map Join ds)) ! (n - 1)
               = \<lparr>event = ''update_users'', args = UsersArg registry, broadcast = True\<rparr>))
    \<and> (\<forall>sid1 sid2 st nm. sid1 \<noteq> sid2 \<longrightarrow>
          users (run (module_init :: 'p server)
             [Join [(''session_id'', sid1), (''station'', st), (''name'', nm)],
              Join [(''session_id'', sid2), (''station'', st), (''name'', nm)]])
          = [(sid1, [(''station'', st), (''name'', nm)]),
             (sid2, [(''station'', st), (''name'', nm)])])"
proof (intro allI impI conjI)
  fix n assume n: "n \<le> length ds"
  define seen where "seen = take n ds"
  define registry where "registry = users (run (module_init :: 'p server) (map Join seen))"
  have wf: "\<forall>d \<in> set seen. {''session_id'', ''station'', ''name''} \<subseteq> set (keys d)"
    using assms unfolding seen_def by (meson in_set_takeD)
  have empty: "keys (users (module_init :: 'p server)) = []"
    by (simp add: module_init_def keys_def)
  have d: "distinct (keys registry)"
    unfolding registry_def by (rule distinct_keys_run) (simp add: empty)
  have k: "set (keys registry) = {sid. \<exists>d \<in> set seen. getitem d ''session_id'' = Inr sid}"
    unfolding registry_def by (simp add: keys_run_joins [OF wf] empty)
  have "length registry = length (keys registry)"
    by (simp add: keys_def)
  also have "\<dots> = card (set (keys registry))"
    using d by (simp add: distinct_card)
  finally have c: "length registry = card {sid. \<exists>d \<in> set seen. getitem d ''session_id'' = Inr sid}"
    by (simp add: k)
  have r: "\<forall>before d after sid st nm.
              seen = before @ d # after
              \<and> getitem d ''session_id'' = Inr sid
              \<and> getitem d ''station'' = Inr st \<and> getitem d ''name'' = Inr nm
              \<and> (\<forall>d' \<in> set after. getitem d' ''session_id'' \<noteq> Inr sid)
              \<longrightarrow> getitem registry sid = Inr [(''station'', st), (''name'', nm)]"
    unfolding registry_def by (blast intro: getitem_users_run_recent)
  have b: "0 < n \<longrightarrow> outbox (run (module_init :: 'p server) (map Join ds)) ! (n - 1)
               = \<lparr>event = ''update_users'', args = UsersArg registry, broadcast = True\<rparr>"
  proof
    assume "0 < n"
    with n have lt: "n - 1 < length ds" and suc: "Suc (n - 1) = n" by simp_all
    have "outbox (run (module_init :: 'p server) (map Join ds)) ! (n - 1)
        = \<lparr>event = ''update_users'',
           args = UsersArg (users (run (module_init :: 'p server)
                     (map Join (take (Suc (n - 1)) ds)))),
           broadcast = True\<rparr>"
      using lt by (simp add: outbox_run_joins [OF assms] module_init_def)
    then show "outbox (run (module_init :: 'p server) (map Join ds)) ! (n - 1)
        = \<lparr>event = ''update_users'', args = UsersArg registry, broadcast = True\<rparr>"
      by (simp only: suc registry_def seen_def)
  qed
  from d k c r b
  show "let seen = take n ds;
         registry = users (run (module_init :: 'p server) (map Join seen))
     in distinct (keys registry)
        \<and> set (keys registry) = {sid. \<exists>d \<in> set seen. getitem d ''session_id'' = Inr sid}
        \<and> length registry = card {sid. \<exists>d \<in> set seen. getitem d ''session_id'' = Inr sid}
        \<and> (\<forall>before d after sid st nm.
              seen = before @ d # after
              \<and> getitem d ''session_id'' = Inr sid
              \<and> getitem d ''station'' = Inr st \<and> getitem d ''name'' = Inr nm
              \<and> (\<forall>d' \<in> set after. getitem d' ''session_id'' \<noteq> Inr sid)
              \<longrightarrow> getitem registry sid = Inr [(''station'', st), (''name'', nm)])
        \<and> (0 < n \<longrightarrow> outbox (run (module_init :: 'p server) (map Join ds)) ! (n - 1)
               = \<lparr>event = ''update_users'', args = UsersArg registry, broadcast = True\<rparr>)"
    unfolding Let_def registry_def seen_def by blast
next
  fix sid1 sid2 st nm :: string
  assume "sid1 \<noteq> sid2"
  then show "users (run (module_init :: 'p server)
             [Join [(''session_id'', sid1), (''station'', st), (''name'', nm)],
              Join [(''session_id'', sid2), (''station'', st), (''name'', nm)]])
          = [(sid1, [(''station'', st), (''name'', nm)]),
             (sid2, [(''station'', st), (''name'', nm)])]"
    by (simp add: handle_join_def emit_def module_init_def Let_def)
qed

text \<open>
  Three joins: \<open>s1\<close> and \<open>s2\<close> with the same station and name, then \<open>s1\<close> again with
  other values.
\<close>

theorem registry_after_joins_witness:
  "{''session_id'', ''station'', ''name''}
      \<subseteq> set (keys [(''session_id'', ''s1''), (''station'', ''helm''), (''name'', ''Han'')])
   \<and> {''session_id'', ''station'', ''name''}
      \<subseteq> set (keys [(''session_id'', ''s2''), (''station'', ''helm''), (''name'', ''Han'')])
   \<and> {''session_id'', ''station'', ''name''}
      \<subseteq> set (keys [(''session_id'', ''s1''), (''station'', ''engineering''), (''name'', ''Chewie'')])
   \<and> users (run (module_init :: unit server) (map Join
               [[(''session_id'', ''s1''), (''station'', ''helm''), (''name'', ''Han'')],
                [(''session_id'', ''s2''), (''station'', ''helm''), (''name'', ''Han'')],
                [(''session_id'', ''s1''), (''station'', ''engineering''), (''name'', ''Chewie'')]]))
      = [(''s1'', [(''station'', ''engineering''), (''name'', ''Chewie'')]),
         (''s2'', [(''station'', ''helm''), (''name'', ''Han'')])]
   \<and> distinct (keys (users (run (module_init :: unit server) (map Join (take 3
               [[(''session_id'', ''s1''), (''station'', ''helm''), (''name'', ''Han'')],
                [(''session_id'', ''s2''), (''station'', ''helm''), (''name'', ''Han'')],
                [(''session_id'', ''s1''), (''station'', ''engineering''), (''name'', ''Chewie'')]])))))"
proof -
  let ?ds = "[[(''session_id'', ''s1''), (''station'', ''helm''), (''name'', ''Han'')],
              [(''session_id'', ''s2''), (''station'', ''helm''), (''name'', ''Han'')],
              [(''session_id'', ''s1''), (''station'', ''engineering''), (''name'', ''Chewie'')]]"
  have h: "\<forall>d \<in> set ?ds. {''session_id'', ''station'', ''name''} \<subseteq> set (keys d)"
    by (simp add: keys_def)
  have "3 \<le> length ?ds" by simp
  with registry_after_joins [OF h, where ?'p = unit]
  have "distinct (keys (users (run (module_init :: unit server) (map Join (take 3 ?ds)))))"
    unfolding Let_def by blast
  moreover have "users (run (module_init :: unit server) (map Join ?ds))
      = [(''s1'', [(''station'', ''engineering''), (''name'', ''Chewie'')]),
         (''s2'', [(''station'', ''helm''), (''name'', ''Han'')])]"
    by (simp add: handle_join_def emit_def module_init_def Let_def)
  ultimately show ?thesis using h by simp
qed

subsection \<open>The join handler\<close>

text \<open>
  Claim C2. A \<open>join\<close> whose payload holds a value under each of \<open>session_id\<close>,
  \<open>station\<close> and \<open>name\<close> succeeds: the handler stores the two-field record under the
  session id, then emits exactly one event, named \<open>update_users\<close>, whose payload is the
  whole registry as it is after the store, with \<open>broadcast\<close> set, so that it goes to
  every connected client, the sender among them.
\<close>

theorem join_stores_then_broadcasts:
  assumes "getitem data ''session_id'' = Inr sid"
    and "getitem data ''station'' = Inr st"
    and "getitem data ''name'' = Inr nm"
  shows "let registry = setitem (users s) sid [(''station'', st), (''name'', nm)];
             update = \<lparr>event = ''update_users'', args = UsersArg registry, broadcast = True\<rparr>
         in handle_join data s = (Inr (), s\<lparr>users := registry, outbox := outbox s @ [update]\<rparr>)
            \<and> recipients connected sender update = connected
            \<and> (sender \<in> set connected \<longrightarrow> sender \<in> set (recipients connected sender update))"
  using assms by (simp add: handle_join_ok recipients_def Let_def)

text \<open>
  The scenario of two clients: after \<open>s1\<close> has joined, the join of \<open>s2\<close> broadcasts a
  registry with both entries.
\<close>

theorem join_stores_then_broadcasts_witness:
  "getitem [(''session_id'', ''s2''), (''station'', ''engineering''), (''name'', ''Chewie'')]
       ''session_id'' = Inr ''s2''
   \<and> handle_join [(''session_id'', ''s2''), (''station'', ''engineering''), (''name'', ''Chewie'')]
       (snd (handle_join [(''session_id'', ''s1''), (''station'', ''helm''), (''name'', ''Han'')]
              (module_init :: unit server)))
     = (Inr (),
        \<lparr>VEHICLES = VEHICLES_literal,
         users = [(''s1'', [(''station'', ''helm''), (''name'', ''Han'')]),
                  (''s2'', [(''station'', ''engineering''), (''name'', ''Chewie'')])],
         outbox =
           [\<lparr>event = ''update_users'',
             args = UsersArg [(''s1'', [(''station'', ''helm''), (''name'', ''Han'')])],
             broadcast = True\<rparr>,
            \<lparr>event = ''update_users'',
             args = UsersArg [(''s1'', [(''station'', ''helm''), (''name'', ''Han'')]),
                              (''s2'', [(''station'', ''engineering''), (''name'', ''Chewie'')])],
             broadcast = True\<rparr>]\<rparr>)
   \<and> ''B'' \<in> set (recipients [''A'', ''B''] ''B''
         (\<lparr>event = ''update_users'',
           args = UsersArg [(''s1'', [(''station'', ''helm''), (''name'', ''Han'')]),
                            (''s2'', [(''station'', ''engineering''), (''name'', ''Chewie'')])],
           broadcast = True\<rparr> :: unit emission))"
  using join_stores_then_broadcasts
    [of "[(''session_id'', ''s2''), (''station'', ''engineering''), (''name'', ''Chewie'')]"
        "''s2''" "''engineering''" "''Chewie''"
        "snd (handle_join [(''session_id'', ''s1''), (''station'', ''helm''), (''name'', ''Han'')]
              (module_init :: unit server))"
        "[''A'', ''B'']" "''B''"]
  by (simp add: handle_join_def emit_def module_init_def Let_def)

text \<open>
  Claim C10. After a join whose payload has the three keys, the record stored under the
  session id is the dictionary with the two keys \<open>station\<close> and \<open>name\<close>, in this order,
  and nothing else. Whatever else the payload holds is ignored: any payload with the same
  values under the three keys has the same effect. The broadcast carries the registry
  after the store, in which every record has these two keys alone if that was so before.
\<close>

theorem join_record_has_two_fields:
  assumes "getitem data ''session_id'' = Inr sid"
    and "getitem data ''station'' = Inr st"
    and "getitem data ''name'' = Inr nm"
  shows "getitem (users (snd (handle_join data s))) sid = Inr [(''station'', st), (''name'', nm)]
     \<and> (\<forall>r. getitem (users (snd (handle_join data s))) sid = Inr r
           \<longrightarrow> keys r = [''station'', ''name''])
     \<and> (\<forall>data'. getitem data' ''session_id'' = Inr sid
                 \<and> getitem data' ''station'' = Inr st \<and> getitem data' ''name'' = Inr nm
           \<longrightarrow> handle_join data' s = handle_join data s)
     \<and> last (outbox (snd (handle_join data s)))
         = \<lparr>event = ''update_users'', args = UsersArg (users (snd (handle_join data s))),
            broadcast = True\<rparr>
     \<and> ((\<forall>(k, r) \<in> set (users s). keys r = [''station'', ''name''])
         \<longrightarrow> (\<forall>(k, r) \<in> set (users (snd (handle_join data s))).
                keys r = [''station'', ''name'']))"
proof -
  note ok = handle_join_ok [OF assms(2) assms(3) assms(1)]
  have stored: "getitem (users (snd (handle_join data s))) sid
      = Inr [(''station'', st), (''name'', nm)]"
    by (simp add: ok getitem_setitem)
  have fields: "keys [(''station'', st), (''name'', nm)] = [''station'', ''name'']"
    by (simp add: keys_def)
  have same: "\<forall>data'. getitem data' ''session_id'' = Inr sid
                 \<and> getitem data' ''station'' = Inr st \<and> getitem data' ''name'' = Inr nm
           \<longrightarrow> handle_join data' s = handle_join data s"
    by (simp add: ok handle_join_ok)
  have sent: "last (outbox (snd (handle_join data s)))
         = \<lparr>event = ''update_users'', args = UsersArg (users (snd (handle_join data s))),
            broadcast = True\<rparr>"
    by (simp add: ok)
  have inv: "(\<forall>(k, r) \<in> set (users s). keys r = [''station'', ''name''])
         \<longrightarrow> (\<forall>(k, r) \<in> set (users (snd (handle_join data s))).
                keys r = [''station'', ''name''])"
    using set_setitem [of "users s" sid "[(''station'', st), (''name'', nm)]"] fields
    by (auto simp: ok)
  from stored fields same sent inv show ?thesis by simp
qed

text \<open>A payload with the extra keys \<open>rank\<close> and \<open>ship\<close>.\<close>

theorem join_record_has_two_fields_witness:
  "getitem [(''session_id'', ''s1''), (''rank'', ''captain''), (''station'', ''helm''),
            (''name'', ''Han''), (''ship'', ''millennium_falcon'')] ''session_id'' = Inr ''s1''
   \<and> users (snd (handle_join
         [(''session_id'', ''s1''), (''rank'', ''captain''), (''station'', ''helm''),
          (''name'', ''Han''), (''ship'', ''millennium_falcon'')] (module_init :: unit server)))
      = [(''s1'', [(''station'', ''helm''), (''name'', ''Han'')])]
   \<and> handle_join [(''session_id'', ''s1''), (''station'', ''helm''), (''name'', ''Han'')]
         (module_init :: unit server)
      = handle_join
         [(''session_id'', ''s1''), (''rank'', ''captain''), (''station'', ''helm''),
          (''name'', ''Han''), (''ship'', ''millennium_falcon'')] module_init"
  using join_record_has_two_fields
    [of "[(''session_id'', ''s1''), (''rank'', ''captain''), (''station'', ''helm''),
          (''name'', ''Han''), (''ship'', ''millennium_falcon'')]"
        "''s1''" "''helm''" "''Han''" "module_init :: unit server"]
  by (simp add: handle_join_def emit_def module_init_def Let_def)

text \<open>
  Claim C3. From any state, a join for a session id followed by a second join for the same
  id leaves the registry that the second join alone would have left: the last write wins.
  The second join does not change the number of entries, and the entry of the id is the
  record of the second join.
\<close>

theorem rejoin_overwrites:
  assumes "getitem data1 ''session_id'' = Inr sid"
    and "getitem data1 ''station'' = Inr st1" and "getitem data1 ''name'' = Inr nm1"
    and "getitem data2 ''session_id'' = Inr sid"
    and "getitem data2 ''station'' = Inr st2" and "getitem data2 ''name'' = Inr nm2"
  shows "users (snd (handle_join data2 (snd (handle_join data1 s))))
           = users (snd (handle_join data2 s))
     \<and> length (users (snd (handle_join data2 (snd (handle_join data1 s)))))
           = length (users (snd (handle_join data1 s)))
     \<and> getitem (users (snd (handle_join data2 (snd (handle_join data1 s))))) sid
           = Inr [(''station'', st2), (''name'', nm2)]"
  using assms
  by (simp add: handle_join_ok setitem_twice length_setitem keys_setitem getitem_setitem)

text \<open>\<open>s1\<close> joins at the helm, then again in engineering, while \<open>s0\<close> is registered.\<close>

theorem rejoin_overwrites_witness:
  "getitem [(''session_id'', ''s1''), (''station'', ''engineering''), (''name'', ''Chewie'')]
      ''session_id'' = Inr ''s1''
   \<and> users (snd (handle_join
        [(''session_id'', ''s1''), (''station'', ''engineering''), (''name'', ''Chewie'')]
        (snd (handle_join [(''session_id'', ''s1''), (''station'', ''helm''), (''name'', ''Han'')]
          \<lparr>VEHICLES = VEHICLES_literal,
           users = [(''s0'', [(''station'', ''comms''), (''name'', ''Leia'')])],
           outbox = ([] :: unit emission list)\<rparr>))))
      = [(''s0'', [(''station'', ''comms''), (''name'', ''Leia'')]),
         (''s1'', [(''station'', ''engineering''), (''name'', ''Chewie'')])]
   \<and> users (snd (handle_join
        [(''session_id'', ''s1''), (''station'', ''engineering''), (''name'', ''Chewie'')]
          \<lparr>VEHICLES = VEHICLES_literal,
           users = [(''s0'', [(''station'', ''comms''), (''name'', ''Leia'')])],
           outbox = ([] :: unit emission list)\<rparr>))
      = [(''s0'', [(''station'', ''comms''), (''name'', ''Leia'')]),
         (''s1'', [(''station'', ''engineering''), (''name'', ''Chewie'')])]"
  using rejoin_overwrites
    [of "[(''session_id'', ''s1''), (''station'', ''helm''), (''name'', ''Han'')]"
        "''s1''" "''helm''" "''Han''"
        "[(''session_id'', ''s1''), (''station'', ''engineering''), (''name'', ''Chewie'')]"
        "''engineering''" "''Chewie''"
        "\<lparr>VEHICLES = VEHICLES_literal,
           users = [(''s0'', [(''station'', ''comms''), (''name'', ''Leia'')])],
           outbox = ([] :: unit emission list)\<rparr>"]
  by (simp add: handle_join_def emit_def Let_def)

subsection \<open>Faults of the join handler\<close>

text \<open>
  Claim C5. The join handler succeeds exactly when the payload has all three keys, whatever
  strings they hold, and faults exactly when one is absent; the fault is the \<open>KeyError\<close>
  of an absent expected key.
\<close>

theorem join_faults_iff_key_missing:
  "(fst (handle_join data s) = Inr ()
      \<longleftrightarrow> {''session_id'', ''station'', ''name''} \<subseteq> set (keys data))
   \<and> ((\<exists>e. fst (handle_join data s) = Inl e)
      \<longleftrightarrow> \<not> {''session_id'', ''station'', ''name''} \<subseteq> set (keys data))
   \<and> (\<forall>e. fst (handle_join data s) = Inl e
      \<longrightarrow> (\<exists>k \<in> {''session_id'', ''station'', ''name''} - set (keys data). e = KeyError k))"
proof (cases "{''session_id'', ''station'', ''name''} \<subseteq> set (keys data)")
  case True
  then have "\<exists>v. getitem data ''session_id'' = Inr v" "\<exists>v. getitem data ''station'' = Inr v"
    "\<exists>v. getitem data ''name'' = Inr v"
    by (simp_all add: getitem_in_keys)
  then obtain sid st nm where "getitem data ''session_id'' = Inr sid"
    "getitem data ''station'' = Inr st" "getitem data ''name'' = Inr nm"
    by blast
  then have "fst (handle_join data s) = Inr ()"
    by (simp add: handle_join_ok)
  with True show ?thesis by simp
next
  case False
  from handle_join_fault [OF False, of s] obtain k where
    "k \<in> {''session_id'', ''station'', ''name''} - set (keys data)"
    "handle_join data s = (Inl (KeyError k), s)" by blast
  with False show ?thesis by auto
qed

text \<open>Empty strings are accepted; a payload without \<open>name\<close> raises \<open>KeyError('name')\<close>.\<close>

theorem join_faults_iff_key_missing_witness:
  "fst (handle_join [(''session_id'', ''''), (''station'', ''''), (''name'', '''')]
         (module_init :: unit server)) = Inr ()
   \<and> fst (handle_join [(''session_id'', ''s1''), (''station'', ''helm'')]
         (module_init :: unit server)) = Inl (KeyError ''name'')"
  using join_faults_iff_key_missing
      [of "[(''session_id'', ''''), (''station'', ''''), (''name'', '''')]" "module_init :: unit server"]
    join_faults_iff_key_missing
      [of "[(''session_id'', ''s1''), (''station'', ''helm'')]" "module_init :: unit server"]
  by (auto simp: keys_def)

text \<open>
  Claim C9. A join whose payload lacks one of the three keys faults before anything is
  written: the state after the fault is the state before it, so the registry is unchanged
  and nothing has been emitted.
\<close>

theorem faulting_join_changes_nothing:
  assumes "\<not> {''session_id'', ''station'', ''name''} \<subseteq> set (keys data)"
  shows "snd (handle_join data s) = s
     \<and> users (snd (handle_join data s)) = users s
     \<and> outbox (snd (handle_join data s)) = outbox s
     \<and> (\<exists>k. fst (handle_join data s) = Inl (KeyError k))"
  using handle_join_fault [OF assms, of s] by auto

text \<open>A payload without \<open>name\<close>, arriving when \<open>s1\<close> is registered.\<close>

theorem faulting_join_changes_nothing_witness:
  "\<not> {''session_id'', ''station'', ''name''} \<subseteq> set (keys [(''session_id'', ''s2''), (''station'', ''helm'')])
   \<and> users (snd (handle_join [(''session_id'', ''s2''), (''station'', ''helm'')]
        \<lparr>VEHICLES = VEHICLES_literal,
         users = [(''s1'', [(''station'', ''helm''), (''name'', ''Han'')])],
         outbox = ([] :: unit emission list)\<rparr>))
      = [(''s1'', [(''station'', ''helm''), (''name'', ''Han'')])]
   \<and> outbox (snd (handle_join [(''session_id'', ''s2''), (''station'', ''helm'')]
        \<lparr>VEHICLES = VEHICLES_literal,
         users = [(''s1'', [(''station'', ''helm''), (''name'', ''Han'')])],
         outbox = ([] :: unit emission list)\<rparr>)) = []"
proof -
  have h: "\<not> {''session_id'', ''station'', ''name''}
             \<subseteq> set (keys [(''session_id'', ''s2''), (''station'', ''helm'')])"
    by (simp add: keys_def)
  show ?thesis
    using h faulting_join_changes_nothing [OF h,
        of "\<lparr>VEHICLES = VEHICLES_literal,
         users = [(''s1'', [(''station'', ''helm''), (''name'', ''Han'')])],
         outbox = ([] :: unit emission list)\<rparr>"]
    by simp
qed

subsection \<open>The power handler\<close>

text \<open>
  Claim C4. A \<open>power_update\<close> with payload \<open>data\<close> succeeds and emits exactly one
  event, named \<open>power_update\<close>, whose payload is \<open>data\<close> itself, with \<open>broadcast\<close>
  set: every connected client receives it, the sender among them. Nothing else in the
  state changes.
\<close>

theorem power_update_echoed:
  "let echo = \<lparr>event = ''power_update'', args = DataArg data, broadcast = True\<rparr>
   in handle_power data s = (Inr (), s\<lparr>outbox := outbox s @ [echo]\<rparr>)
      \<and> recipients connected sender echo = connected
      \<and> (sender \<in> set connected \<longrightarrow> sender \<in> set (recipients connected sender echo))"
  by (simp add: handle_power_def emit_def recipients_def Let_def)

text \<open>The payload \<open>{"shields": 50}\<close> sent by client \<open>A\<close>.\<close>

theorem power_update_echoed_witness:
  "handle_power [(''shields'', 50 :: int)] module_init
     = (Inr (), module_init\<lparr>outbox :=
          [\<lparr>event = ''power_update'', args = DataArg [(''shields'', 50)], broadcast = True\<rparr>]\<rparr>)
   \<and> ''A'' \<in> set [''A'', ''B'']
   \<and> set (recipients [''A'', ''B''] ''A''
        \<lparr>event = ''power_update'', args = DataArg [(''shields'', 50 :: int)], broadcast = True\<rparr>)
      = {''A'', ''B''}"
  using power_update_echoed [of "[(''shields'', 50 :: int)]" module_init "[''A'', ''B'']" "''A''"]
  by (simp add: module_init_def Let_def)

subsection \<open>Independence of the power handler from the registry\<close>

text \<open>
  Claim C6. Run the power handler on the same payload in two states that differ only in
  the registry: both runs succeed and both leave the same emissions, the earlier ones
  followed by the echo of the payload. This holds for the empty registry too, and the
  handler leaves the registry as it found it.
\<close>

theorem power_ignores_registry:
  "fst (handle_power data (s\<lparr>users := registry1\<rparr>)) = Inr ()
   \<and> fst (handle_power data (s\<lparr>users := registry2\<rparr>)) = Inr ()
   \<and> outbox (snd (handle_power data (s\<lparr>users := registry1\<rparr>)))
       = outbox (snd (handle_power data (s\<lparr>users := registry2\<rparr>)))
   \<and> outbox (snd (handle_power data (s\<lparr>users := registry1\<rparr>)))
       = outbox s @ [\<lparr>event = ''power_update'', args = DataArg data, broadcast = True\<rparr>]
   \<and> outbox (snd (handle_power data (s\<lparr>users := []\<rparr>)))
       = outbox s @ [\<lparr>event = ''power_update'', args = DataArg data, broadcast = True\<rparr>]
   \<and> users (snd (handle_power data (s\<lparr>users := registry1\<rparr>))) = registry1"
  by (simp add: handle_power_def emit_def)

text \<open>Before any join and after one, the same payload gives the same emission.\<close>

theorem power_ignores_registry_witness:
  "outbox (snd (handle_power [(''shields'', 50 :: int)] (module_init\<lparr>users := []\<rparr>)))
     = outbox (snd (handle_power [(''shields'', 50 :: int)]
         (module_init\<lparr>users := [(''s1'', [(''station'', ''helm''), (''name'', ''Han'')])]\<rparr>)))
   \<and> outbox (snd (handle_power [(''shields'', 50 :: int)] (module_init\<lparr>users := []\<rparr>)))
     = [\<lparr>event = ''power_update'', args = DataArg [(''shields'', 50)], broadcast = True\<rparr>]"
  using power_ignores_registry
    [where data = "[(''shields'', 50 :: int)]" and s = module_init and ?registry1.0 = "[]"
       and ?registry2.0 = "[(''s1'', [(''station'', ''helm''), (''name'', ''Han'')])]"]
  by (simp add: module_init_def handle_power_def emit_def)

subsection \<open>Registry entries are never removed\<close>

text \<open>
  Claim C7. A session id that is a key of the registry is still a key after any sequence
  of \<open>join\<close> and \<open>power_update\<close> events, faulting ones included: the set of keys after
  a sequence of events is contained in the set of keys after any longer one, and the
  number of entries never goes down.
\<close>

theorem registry_keys_persist:
  "(k \<in> set (keys (users s)) \<longrightarrow> k \<in> set (keys (users (run s evs))))
   \<and> set (keys (users (run s evs))) \<subseteq> set (keys (users (run s (evs @ later))))
   \<and> length (users (run s evs)) \<le> length (users (run s (evs @ later)))"
  by (auto simp: run_append keys_run length_users_run)

text \<open>
  \<open>s1\<close> stays registered through a power update, a faulting join and a join of another
  client.
\<close>

theorem registry_keys_persist_witness:
  "''s1'' \<in> set (keys (users \<lparr>VEHICLES = VEHICLES_literal,
           users = [(''s1'', [(''station'', ''helm''), (''name'', ''Han'')])],
           outbox = ([] :: nat emission list)\<rparr>))
   \<and> ''s1'' \<in> set (keys (users (run \<lparr>VEHICLES = VEHICLES_literal,
           users = [(''s1'', [(''station'', ''helm''), (''name'', ''Han'')])],
           outbox = ([] :: nat emission list)\<rparr>
         [PowerUpdate 50, Join [(''session_id'', ''s2''), (''station'', ''helm'')],
          Join [(''session_id'', ''s2''), (''station'', ''helm''), (''name'', ''Lando'')]])))"
proof -
  have h: "''s1'' \<in> set (keys (users \<lparr>VEHICLES = VEHICLES_literal,
           users = [(''s1'', [(''station'', ''helm''), (''name'', ''Han'')])],
           outbox = ([] :: nat emission list)\<rparr>))"
    by (simp add: keys_def)
  from h registry_keys_persist
    [of "''s1''" "\<lparr>VEHICLES = VEHICLES_literal,
           users = [(''s1'', [(''station'', ''helm''), (''name'', ''Han'')])],
           outbox = ([] :: nat emission list)\<rparr>"
        "[PowerUpdate 50, Join [(''session_id'', ''s2''), (''station'', ''helm'')],
          Join [(''session_id'', ''s2''), (''station'', ''helm''), (''name'', ''Lando'')]]" "[]"]
  show ?thesis by blast
qed

subsection \<open>The vehicle catalog\<close>

text \<open>
  Claim C8. No sequence of events changes \<open>VEHICLES\<close>, and nothing the handlers do depends
  on it: with any other catalog \<open>V\<close> in its place the same events lead to the same
  registry and the same emissions, each event has the same outcome, and the final state
  differs in the catalog alone.
\<close>

theorem vehicles_untouched:
  "VEHICLES (run s evs) = VEHICLES s
   \<and> run (s\<lparr>VEHICLES := V\<rparr>) evs = (run s evs)\<lparr>VEHICLES := V\<rparr>
   \<and> users (run (s\<lparr>VEHICLES := V\<rparr>) evs) = users (run s evs)
   \<and> outbox (run (s\<lparr>VEHICLES := V\<rparr>) evs) = outbox (run s evs)
   \<and> fst (dispatch e (s\<lparr>VEHICLES := V\<rparr>)) = fst (dispatch e s)"
  by (simp add: VEHICLES_run_same VEHICLES_run VEHICLES_dispatch)

text \<open>With an empty catalog the same two events give the same registry and emissions.\<close>

theorem vehicles_untouched_witness:
  "VEHICLES (run (module_init :: nat server)
       [Join [(''session_id'', ''s1''), (''station'', ''helm''), (''name'', ''Han'')],
        PowerUpdate 50]) = VEHICLES_literal
   \<and> users (run ((module_init :: nat server)\<lparr>VEHICLES := []\<rparr>)
       [Join [(''session_id'', ''s1''), (''station'', ''helm''), (''name'', ''Han'')],
        PowerUpdate 50])
     = users (run (module_init :: nat server)
       [Join [(''session_id'', ''s1''), (''station'', ''helm''), (''name'', ''Han'')],
        PowerUpdate 50])
   \<and> outbox (run ((module_init :: nat server)\<lparr>VEHICLES := []\<rparr>)
       [Join [(''session_id'', ''s1''), (''station'', ''helm''), (''name'', ''Han'')],
        PowerUpdate 50])
     = outbox (run (module_init :: nat server)
       [Join [(''session_id'', ''s1''), (''station'', ''helm''), (''name'', ''Han'')],
        PowerUpdate 50])"
  using vehicles_untouched
    [where s = "module_init :: nat server"
       and evs = "[Join [(''session_id'', ''s1''), (''station'', ''helm''), (''name'', ''Han'')],
                   PowerUpdate 50]"
       and V = "[]" and e = "PowerUpdate 50"]
  by (simp add: module_init_def handle_power_def handle_join_def emit_def Let_def)

end
